theory Spec2Isabelle
  imports Main
begin

section \<open>Documents and application state\<close>

text \<open>
  The report lifecycle of \<^verbatim>\<open>src/App.js\<close> (the first of the unnamed source
  files). A store document is a record whose
  optional fields are \<open>option\<close> values (\<open>None\<close> is JavaScript's \<open>null\<close>, or
  a field the document does not carry). The numbers of the data model are integers,
  modelled as \<open>int\<close>; JavaScript computes on them as double-precision numbers, so the
  result of an addition, a multiplication or a \<open>parseInt\<close> is rounded to the nearest
  such number (\<open>toDouble\<close> below). A magnitude from \<open>2 ^ 1024\<close> on is \<open>Infinity\<close> in
  JavaScript and is outside the model. Times (\<open>new Date()\<close>) are natural numbers
  handed to the handlers by the caller.
\<close>

record location =
  lat :: string
  lon :: string

record profile =
  name :: string
  role :: string
  totalReporterPoints :: "int option"
  totalPickerPoints :: "int option"
  dateJoined :: nat
  publicUserId :: string

record report =
  reporterId :: string
  reporterName :: string
  location :: location
  originalImageUrl :: string
  aiClassification :: string
  priority :: string
  baseReward :: "int option"
  status :: string
  pickerId :: "string option"
  pickerName :: "string option"
  reportedAt :: nat
  reporterRewardIssued :: bool
  pickerRewardIssued :: bool
  cleanupPhotoUrl :: "string option"
  pickerLocation :: "location option"
  proofSubmittedAt :: "nat option"
  monitorId :: "string option"
  monitorName :: "string option"
  monitorMessage :: "string option"
  completedAt :: "nat option"

text \<open>
  The React state the handlers close over: \<open>userId\<close> (\<open>None\<close> when signed out),
  \<open>userProfile\<close> (\<open>None\<close> while loading or when setup is required), \<open>userName\<close>
  and \<open>userRole\<close> (both \<open>''''\<close> until a profile is loaded).
\<close>

record session =
  userId :: "string option"
  userProfile :: "profile option"
  userName :: string
  userRole :: string

text \<open>A call of \<open>alertUser({ title, message, type })\<close>.\<close>

datatype alert = Alert string string string

section \<open>The document store\<close>

text \<open>
  Modelled from the spec: the document store (Firestore) is an external service; only
  its client calls appear in the source. Section 6 of the specification gives its
  contract: \<open>write(path, fields)\<close> is a full or partial document write, and
  \<open>transaction(body)\<close> executes \<open>body\<close> with read-then-write semantics across
  several paths, atomically. The two tables are the reports (path
  \<open>artifacts/APP_ID/public/data/reports/<id>\<close>) and the public profiles (path
  \<open>artifacts/APP_ID/users/<uid>/profiles/public\<close>).

  Every call may fail for a reason outside the program (network, permission, conflict):
  the \<open>fault\<close> argument of a call is \<open>Some msg\<close> when the store rejects it with the
  message \<open>msg\<close>. A partial write (\<open>updateDoc\<close>, \<open>transaction.update\<close>) needs the
  document to exist. Inside a transaction every read comes before every write: a read
  issued after a write is rejected, and the transaction fails as a whole.
\<close>

record store =
  reports :: "string \<rightharpoonup> report"
  profiles :: "string \<rightharpoonup> profile"

datatype storeError = NotFound | ReadAfterWrite | Aborted string

fun errMessage :: "storeError \<Rightarrow> string" where
  "errMessage NotFound = ''No document to update''"
| "errMessage ReadAfterWrite =
     ''Firestore transactions require all reads to be executed before all writes.''"
| "errMessage (Aborted msg) = msg"

text \<open>\<open>updateDoc(doc(db, reports, reportId), fields)\<close>: \<open>f\<close> overwrites the given fields.\<close>

definition updateDoc ::
  "string option \<Rightarrow> store \<Rightarrow> string \<Rightarrow> (report \<Rightarrow> report) \<Rightarrow> storeError + store" where
  "updateDoc fault s rid f =
     (case fault of
        Some msg \<Rightarrow> Inl (Aborted msg)
      | None \<Rightarrow>
          (case reports s rid of
             None \<Rightarrow> Inl NotFound
           | Some d \<Rightarrow> Inr (s\<lparr>reports := (reports s)(rid \<mapsto> f d)\<rparr>)))"

text \<open>\<open>setDoc(profileDocRef, profileData)\<close>: a full write, creating or replacing.\<close>

definition setDoc :: "string option \<Rightarrow> store \<Rightarrow> string \<Rightarrow> profile \<Rightarrow> storeError + store" where
  "setDoc fault s uid p =
     (case fault of
        Some msg \<Rightarrow> Inl (Aborted msg)
      | None \<Rightarrow> Inr (s\<lparr>profiles := (profiles s)(uid \<mapsto> p)\<rparr>))"

text \<open>\<open>addDoc(reportsRef, newReport)\<close>: the store chooses the identifier \<open>newId\<close>.\<close>

definition addDoc :: "string option \<Rightarrow> store \<Rightarrow> string \<Rightarrow> report \<Rightarrow> storeError + store" where
  "addDoc fault s newId d =
     (case fault of
        Some msg \<Rightarrow> Inl (Aborted msg)
      | None \<Rightarrow> Inr (s\<lparr>reports := (reports s)(newId \<mapsto> d)\<rparr>))"

subsection \<open>Transactions\<close>

text \<open>
  The transaction object buffers its writes (\<open>transaction.update\<close>) and reads from the
  store (\<open>transaction.get\<close>). The buffered writes are applied together at the end, or
  not at all.
\<close>

datatype mutation =
    UpdateReport string "report \<Rightarrow> report"
  | UpdateProfile string "profile \<Rightarrow> profile"

definition txUpdate :: "mutation \<Rightarrow> mutation list \<Rightarrow> mutation list" where
  "txUpdate w ms = ms @ [w]"

definition txGet :: "store \<Rightarrow> mutation list \<Rightarrow> string \<Rightarrow> storeError + profile option" where
  "txGet db ms uid = (if ms \<noteq> [] then Inl ReadAfterWrite else Inr (profiles db uid))"

fun applyWrite :: "store \<Rightarrow> mutation \<Rightarrow> storeError + store" where
  "applyWrite s (UpdateReport rid f) =
     (case reports s rid of
        None \<Rightarrow> Inl NotFound
      | Some d \<Rightarrow> Inr (s\<lparr>reports := (reports s)(rid \<mapsto> f d)\<rparr>))"
| "applyWrite s (UpdateProfile uid f) =
     (case profiles s uid of
        None \<Rightarrow> Inl NotFound
      | Some p \<Rightarrow> Inr (s\<lparr>profiles := (profiles s)(uid \<mapsto> f p)\<rparr>))"

fun commit :: "store \<Rightarrow> mutation list \<Rightarrow> storeError + store" where
  "commit s [] = Inr s"
| "commit s (w # ws) =
     (case applyWrite s w of Inl e \<Rightarrow> Inl e | Inr s' \<Rightarrow> commit s' ws)"

text \<open>
  \<open>runTransaction(db, body)\<close>. The body returns the writes it buffered, or the error
  that stopped it, together with the alerts it raised on the way: an alert is not part
  of the store and is not undone when the transaction fails.
\<close>

definition runTransaction ::
  "string option \<Rightarrow> store \<Rightarrow> (store \<Rightarrow> (storeError + mutation list) \<times> alert list)
     \<Rightarrow> (storeError + store) \<times> alert list" where
  "runTransaction fault s body =
     (case body s of
        (Inl e, al) \<Rightarrow> (Inl e, al)
      | (Inr ms, al) \<Rightarrow>
          (case fault of
             Some msg \<Rightarrow> (Inl (Aborted msg), al)
           | None \<Rightarrow> (commit s ms, al)))"

section \<open>JavaScript expressions used by the handlers\<close>

text \<open>\<open>x || d\<close> on a number that may be missing: \<open>0\<close>, \<open>null\<close> and \<open>undefined\<close> are falsy.\<close>

fun orNum :: "int option \<Rightarrow> int \<Rightarrow> int" where
  "orNum None d = d"
| "orNum (Some n) d = (if n = 0 then d else n)"

text \<open>
  The arithmetic of JavaScript numbers on integers. An integer of magnitude below
  \<open>2 ^ 53\<close> is a number as it stands; a larger one is rounded to 53 significant bits,
  to the nearest, and to the even one of two that are equally near.
\<close>

function bitLength :: "int \<Rightarrow> nat" where
  "bitLength n = (if n \<le> 0 then 0 else Suc (bitLength (n div 2)))"
  by pat_completeness auto
termination
  by (relation "measure (\<lambda>n. nat n)") auto

declare bitLength.simps [simp del]

definition roundHalfEven :: "int \<Rightarrow> int" where
  "roundHalfEven m =
     (if m < 2 ^ 53 then m
      else
        (let e = bitLength m - 53;
             q = m div 2 ^ e;
             r = m mod 2 ^ e;
             half = 2 ^ (e - 1)
         in (if half < r \<or> (r = half \<and> odd q) then q + 1 else q) * 2 ^ e))"

definition toDouble :: "int \<Rightarrow> int" where
  "toDouble i = (if i < 0 then - roundHalfEven (- i) else roundHalfEven i)"

text \<open>\<open>a + b\<close> and \<open>a * b\<close> on numbers.\<close>

definition jsAdd :: "int \<Rightarrow> int \<Rightarrow> int" where
  "jsAdd a b = toDouble (a + b)"

definition jsMul :: "int \<Rightarrow> int \<Rightarrow> int" where
  "jsMul a b = toDouble (a * b)"

text \<open>\<open>!x\<close> on a string that may be missing: \<open>null\<close>, \<open>undefined\<close> and \<open>''''\<close> are falsy.\<close>

fun falsyStr :: "string option \<Rightarrow> bool" where
  "falsyStr None = True"
| "falsyStr (Some x) = (x = [])"

text \<open>
  A number in a template literal: its decimal digits, with a minus sign if negative
  (JavaScript writes a magnitude from \<open>10 ^ 21\<close> on with an exponent instead).
\<close>

definition digitChar :: "nat \<Rightarrow> char" where
  "digitChar d = char_of (48 + d)"

function showNat :: "nat \<Rightarrow> string" where
  "showNat n = (if n < 10 then [digitChar n] else showNat (n div 10) @ [digitChar (n mod 10)])"
  by pat_completeness auto
termination
  by (relation "measure (\<lambda>n. n)") auto

declare showNat.simps [simp del]

definition showInt :: "int \<Rightarrow> string" where
  "showInt i = (if i < 0 then CHR ''-'' # showNat (nat (- i)) else showNat (nat i))"

text \<open>A string that may be \<open>null\<close> in a template literal.\<close>

fun showId :: "string option \<Rightarrow> string" where
  "showId None = ''null''"
| "showId (Some x) = x"

section \<open>Claim, proof and monitor decision\<close>

definition handleClaimReport ::
  "session \<Rightarrow> string option \<Rightarrow> store \<Rightarrow> string \<Rightarrow> store \<times> alert list" where
  "handleClaimReport sess fault s reportId =
     (if falsyStr (userId sess) \<or> userProfile sess = None
      then (s, [Alert ''Claim Failed'' ''Profile not ready.'' ''error''])
      else
        (case updateDoc fault s reportId
                (\<lambda>d. d\<lparr>status := ''Claimed'', pickerId := userId sess,
                        pickerName := Some (userName sess)\<rparr>) of
           Inr s' \<Rightarrow> (s', [Alert ''Report Claimed!'' ''Proceed to cleanup.'' ''success''])
         | Inl e \<Rightarrow> (s, [Alert ''Claim Failed'' (errMessage e) ''error''])))"

text \<open>
  \<open>resizeImageAndConvertToBase64(file)\<close> is outside the model: its outcome is an input,
  \<open>Inr\<close> the encoded image, \<open>Inl\<close> the message of the error it rejected with.
\<close>

definition handleSubmitProof ::
  "session \<Rightarrow> nat \<Rightarrow> string option \<Rightarrow> store \<Rightarrow> string \<Rightarrow> string + string \<Rightarrow> location
     \<Rightarrow> store \<times> alert list" where
  "handleSubmitProof sess now fault s reportId cleanupFile loc =
     (if falsyStr (userId sess) \<or> userProfile sess = None
      then (s, [Alert ''Submission Failed'' ''Profile not ready.'' ''error''])
      else
        (case cleanupFile of
           Inl msg \<Rightarrow> (s, [Alert ''Submission Failed'' msg ''error''])
         | Inr base64Image \<Rightarrow>
             (case updateDoc fault s reportId
                     (\<lambda>d. d\<lparr>status := ''Pending Review'', cleanupPhotoUrl := Some base64Image,
                             pickerLocation := Some loc, proofSubmittedAt := Some now\<rparr>) of
                Inr s' \<Rightarrow> (s', [Alert ''Proof Submitted!'' ''Pending monitor review.'' ''info''])
              | Inl e \<Rightarrow> (s, [Alert ''Submission Failed'' (errMessage e) ''error'']))))"

text \<open>
  The rewards, as \<open>handleFinalApproval\<close> computes them before its transaction:
  \<open>report.baseReward || 10\<close> and \<open>rewardReporter * 3\<close>.
\<close>

definition rewardReporter :: "report \<Rightarrow> int" where
  "rewardReporter r = orNum (baseReward r) 10"

definition rewardPicker :: "report \<Rightarrow> int" where
  "rewardPicker r = jsMul (rewardReporter r) 3"

definition rewardText :: "int \<Rightarrow> int \<Rightarrow> string" where
  "rewardText rr rp = ''Reporter +'' @ showInt rr @ '', Picker +'' @ showInt rp @ ''.''"

definition completedFields :: "session \<Rightarrow> nat \<Rightarrow> int \<Rightarrow> int \<Rightarrow> report \<Rightarrow> report" where
  "completedFields sess now rr rp d =
     d\<lparr>status := ''Completed'',
       monitorId := userId sess,
       monitorName := Some (userName sess),
       completedAt := Some now,
       reporterRewardIssued := True,
       pickerRewardIssued := True,
       monitorMessage := Some (''Thank you for cleaning. Rewards: '' @ rewardText rr rp)\<rparr>"

definition rejectedFields :: "session \<Rightarrow> report \<Rightarrow> report" where
  "rejectedFields sess d =
     d\<lparr>status := ''Rejected'',
       monitorId := userId sess,
       monitorName := Some (userName sess),
       monitorMessage := Some ''Proof rejected. Please resubmit.'',
       pickerId := None,
       pickerName := None\<rparr>"

text \<open>\<open>snap.data()?.totalReporterPoints\<close> of a profile snapshot that may not exist.\<close>

definition snapField :: "profile option \<Rightarrow> (profile \<Rightarrow> int option) \<Rightarrow> int option" where
  "snapField snap fld = (case snap of None \<Rightarrow> None | Some p \<Rightarrow> fld p)"

text \<open>
  The total the settlement writes to a profile: the current total of the snapshot,
  \<open>snap.data()?.total || 0\<close>, plus the reward.
\<close>

definition settledTotal :: "profile option \<Rightarrow> (profile \<Rightarrow> int option) \<Rightarrow> int \<Rightarrow> int" where
  "settledTotal snap fld delta = jsAdd (orNum (snapField snap fld) 0) delta"

text \<open>
  The body of the transaction, branch \<open>approvalType === 'approve'\<close>: the report is
  updated first, then each profile is read and updated.
\<close>

definition approveBody ::
  "session \<Rightarrow> nat \<Rightarrow> string \<Rightarrow> report \<Rightarrow> store \<Rightarrow> (storeError + mutation list) \<times> alert list" where
  "approveBody sess now rid rep db =
     (let rr = rewardReporter rep;
          rp = rewardPicker rep;
          ms1 = txUpdate (UpdateReport rid (completedFields sess now rr rp)) []
      in case txGet db ms1 (reporterId rep) of
           Inl e \<Rightarrow> (Inl e, [])
         | Inr rpSnap \<Rightarrow>
             (let ms2 = txUpdate (UpdateProfile (reporterId rep)
                           (\<lambda>p. p\<lparr>totalReporterPoints :=
                                   Some (settledTotal rpSnap totalReporterPoints rr)\<rparr>)) ms1
              in case txGet db ms2 (showId (pickerId rep)) of
                   Inl e \<Rightarrow> (Inl e, [])
                 | Inr ppSnap \<Rightarrow>
                     (let ms3 = txUpdate (UpdateProfile (showId (pickerId rep))
                                   (\<lambda>p. p\<lparr>totalPickerPoints :=
                                           Some (settledTotal ppSnap totalPickerPoints rp)\<rparr>)) ms2
                      in (Inr ms3,
                          [Alert ''Report Approved'' (''Rewards issued: '' @ rewardText rr rp)
                             ''success'']))))"

text \<open>The other branch: one update of the report.\<close>

definition rejectBody ::
  "session \<Rightarrow> string \<Rightarrow> store \<Rightarrow> (storeError + mutation list) \<times> alert list" where
  "rejectBody sess rid db =
     (Inr (txUpdate (UpdateReport rid (rejectedFields sess)) []),
      [Alert ''Report Rejected'' ''Proof rejected. Report re-opened.'' ''error''])"

text \<open>
  \<open>handleFinalApproval(report, approvalType)\<close>: \<open>rid\<close> is \<open>report.id\<close> and \<open>rep\<close> the
  report as the caller's view holds it.
\<close>

definition handleFinalApproval ::
  "session \<Rightarrow> nat \<Rightarrow> string option \<Rightarrow> store \<Rightarrow> string \<Rightarrow> report \<Rightarrow> string
     \<Rightarrow> store \<times> alert list" where
  "handleFinalApproval sess now fault s rid rep approvalType =
     (if userRole sess \<noteq> ''monitor'' \<or> userProfile sess = None then (s, [])
      else
        (case runTransaction fault s
                (if approvalType = ''approve'' then approveBody sess now rid rep
                 else rejectBody sess rid) of
           (Inr s', al) \<Rightarrow> (s', al)
         | (Inl e, al) \<Rightarrow> (s, al @ [Alert ''Approval Failed'' (errMessage e) ''error''])))"

section \<open>The buttons of a report\<close>

text \<open>
  \<open>ReportItem\<close> renders the action buttons of one report for the signed-in user. The
  handlers above are reached through these buttons only.
\<close>

datatype button = ClaimJob | SubmitProof | Approve | Reject

definition ReportItem :: "session \<Rightarrow> report \<Rightarrow> button list" where
  "ReportItem sess rep =
     (let isPicker = (pickerId rep = userId sess);
          isReported = (status rep = ''Reported'');
          isClaimed = (status rep = ''Claimed'');
          isPending = (status rep = ''Pending Review'')
      in (if userRole sess = ''picker'' \<and> isReported then [ClaimJob] else []) @
         (if userRole sess = ''picker'' \<and> isClaimed \<and> isPicker \<and> falsyStr (cleanupPhotoUrl rep)
          then [SubmitProof] else []) @
         (if userRole sess = ''monitor'' \<and> isPending then [Approve, Reject] else []))"

section \<open>Profile setup\<close>

definition handleProfileSetup ::
  "session \<Rightarrow> nat \<Rightarrow> string option \<Rightarrow> store \<Rightarrow> string \<Rightarrow> string \<Rightarrow> store \<times> alert list" where
  "handleProfileSetup sess now fault s nm rl =
     (case userId sess of
        None \<Rightarrow> (s, [])
      | Some uid \<Rightarrow>
          if uid = [] then (s, [])
          else
            (case setDoc fault s uid
                    \<lparr>name = nm, role = rl, totalReporterPoints = Some 0,
                     totalPickerPoints = Some 0, dateJoined = now, publicUserId = uid\<rparr> of
               Inr s' \<Rightarrow> (s', [Alert ''Setup Success!'' ''Profile created.'' ''success''])
             | Inl e \<Rightarrow> (s, [Alert ''Setup Failed'' (errMessage e) ''error''])))"

section \<open>The advisory client\<close>

text \<open>
  The reply of the proxy is a JSON value. What \<open>fetch\<close> did is an input of the model:
  it threw, or it gave a response with its \<open>ok\<close> flag and its body (\<open>None\<close> when the
  body is not JSON, so that \<open>res.json()\<close> throws).
\<close>

datatype json =
    JNull | JBool bool | JNum int | JStr string | JArr "json list" | JObj "(string \<times> json) list"

datatype fetchResult = FetchFailed | Response bool "json option"

fun callGeminiProxy :: "fetchResult \<Rightarrow> json" where
  "callGeminiProxy FetchFailed = JNull"
| "callGeminiProxy (Response ok body) =
     (if \<not> ok then JNull else (case body of None \<Rightarrow> JNull | Some j \<Rightarrow> j))"

text \<open>
  Optional chaining: \<open>x?.key\<close> and \<open>x?.[0]\<close>, with \<open>None\<close> for \<open>undefined\<close>. Only an
  object has one of the keys used here; index 0 of an array is its first element, of a
  string its first character.
\<close>

fun optProp :: "string \<Rightarrow> json option \<Rightarrow> json option" where
  "optProp k (Some (JObj kvs)) = map_of kvs k"
| "optProp k _ = None"

fun optFirst :: "json option \<Rightarrow> json option" where
  "optFirst (Some (JArr (x # xs))) = Some x"
| "optFirst (Some (JStr (c # cs))) = Some (JStr [c])"
| "optFirst (Some (JObj kvs)) = map_of kvs ''0''"
| "optFirst _ = None"

definition callGeminiForText :: "fetchResult \<Rightarrow> json" where
  "callGeminiForText r =
     (case optProp ''text'' (optFirst (optProp ''parts'' (optProp ''content''
             (optFirst (optProp ''candidates'' (Some (callGeminiProxy r))))))) of
        None \<Rightarrow> JStr []
      | Some JNull \<Rightarrow> JStr []
      | Some v \<Rightarrow> v)"

text \<open>\<open>reply.match(/\d+/)\<close>: the first maximal run of decimal digits, if there is one.\<close>

definition isDigit :: "char \<Rightarrow> bool" where
  "isDigit c = (c \<in> set ''0123456789'')"

definition matchDigits :: "string \<Rightarrow> string option" where
  "matchDigits t =
     (case dropWhile (\<lambda>c. \<not> isDigit c) t of
        [] \<Rightarrow> None
      | d # ds \<Rightarrow> Some (takeWhile isDigit (d # ds)))"

text \<open>
  \<open>parseInt(digits, 10)\<close> on a run of decimal digits: the number nearest to the value
  of the digits.
\<close>

definition digitsValue :: "string \<Rightarrow> int" where
  "digitsValue ds = foldl (\<lambda>acc c. 10 * acc + (int (of_char c) - 48)) 0 ds"

definition parseInt :: "string \<Rightarrow> int" where
  "parseInt ds = toDouble (digitsValue ds)"

datatype jsError = TypeError

text \<open>
  \<open>getRewardSuggestionRemote\<close>: a reply that is not a string has no \<open>match\<close> method,
  and the call throws.
\<close>

definition getRewardSuggestionRemote :: "fetchResult \<Rightarrow> jsError + int" where
  "getRewardSuggestionRemote r =
     (case callGeminiForText r of
        JStr reply \<Rightarrow>
          (case matchDigits reply of
             None \<Rightarrow> Inr 10
           | Some numeric \<Rightarrow> Inr (parseInt numeric))
      | _ \<Rightarrow> Inl TypeError)"

section \<open>Report submission\<close>

text \<open>\<open>haystack.includes(needle)\<close>.\<close>

fun includesStr :: "string \<Rightarrow> string \<Rightarrow> bool" where
  "includesStr [] needle = (needle = [])"
| "includesStr (c # cs) needle = (take (length needle) (c # cs) = needle \<or> includesStr cs needle)"

text \<open>
  \<open>classifyWasteLocal\<close>: \<open>k\<close> is the value of
  \<open>Math.floor(Math.random() * classes.length)\<close>, an index into \<open>classes\<close>.
\<close>

definition classes :: "string list" where
  "classes = [''High-Priority Plastic'', ''Hazardous E-Waste'', ''Organic Compost'',
              ''Mixed Recyclables'']"

definition classifyWasteLocal :: "nat \<Rightarrow> string \<times> string" where
  "classifyWasteLocal k =
     (let classification = classes ! (k mod length classes);
          prio = (if includesStr classification ''Hazardous'' \<or> includesStr classification ''Plastic''
                  then ''High'' else ''Medium'')
      in (classification, prio))"

text \<open>
  The reward of a new report, \<open>baseReward\<close> after the inner \<open>try\<close> of
  \<open>handleReportSubmission\<close>: the suggestion if it is a truthy number, else 10.
\<close>

definition resolveBaseReward :: "fetchResult \<Rightarrow> int" where
  "resolveBaseReward r =
     (case getRewardSuggestionRemote r of
        Inr n \<Rightarrow> orNum (Some n) 10
      | Inl e \<Rightarrow> 10)"

definition handleReportSubmission ::
  "session \<Rightarrow> nat \<Rightarrow> string option \<Rightarrow> store \<Rightarrow> string + string \<Rightarrow> location \<Rightarrow> nat
     \<Rightarrow> fetchResult \<Rightarrow> string \<Rightarrow> store \<times> alert list" where
  "handleReportSubmission sess now fault s imageFile loc k r newId =
     (case userId sess of
        None \<Rightarrow> (s, [Alert ''Submission Failed''
                       ''Please finish setup and wait for profile to load.'' ''error''])
      | Some uid \<Rightarrow>
          if uid = [] \<or> userProfile sess = None
          then (s, [Alert ''Submission Failed''
                      ''Please finish setup and wait for profile to load.'' ''error''])
          else
            (case imageFile of
               Inl msg \<Rightarrow> (s, [Alert ''Submission Failed'' msg ''error''])
             | Inr base64Image \<Rightarrow>
                 (let (classification, prio) = classifyWasteLocal k;
                      reward = resolveBaseReward r;
                      newReport =
                        \<lparr>reporterId = uid, reporterName = userName sess, location = loc,
                         originalImageUrl = base64Image, aiClassification = classification,
                         priority = prio, baseReward = Some reward, status = ''Reported'',
                         pickerId = None, pickerName = None, reportedAt = now,
                         reporterRewardIssued = False, pickerRewardIssued = False,
                         cleanupPhotoUrl = None, pickerLocation = None,
                         proofSubmittedAt = None, monitorId = None, monitorName = None,
                         monitorMessage = None, completedAt = None\<rparr>
                  in case addDoc fault s newId newReport of
                       Inr s' \<Rightarrow>
                         (s', [Alert ''Report Submitted!''
                                 (''Classified: '' @ classification @ ''. Reward: '' @
                                  showInt reward @ '' pts. ID: '' @ newId) ''success''])
                     | Inl e \<Rightarrow> (s, [Alert ''Submission Failed'' (errMessage e) ''error'']))))"

section \<open>Sequences of operations\<close>

datatype op =
    ProfileSetup session nat "string option" string string
  | ReportSubmission session nat "string option" "string + string" location nat fetchResult string
  | ClaimReport session "string option" string
  | ProofSubmission session nat "string option" string "string + string" location
  | FinalApproval session nat "string option" string report string

fun step :: "store \<Rightarrow> op \<Rightarrow> store" where
  "step s (ProfileSetup sess now fault nm rl) = fst (handleProfileSetup sess now fault s nm rl)"
| "step s (ReportSubmission sess now fault img loc k r newId) =
     fst (handleReportSubmission sess now fault s img loc k r newId)"
| "step s (ClaimReport sess fault rid) = fst (handleClaimReport sess fault s rid)"
| "step s (ProofSubmission sess now fault rid img loc) =
     fst (handleSubmitProof sess now fault s rid img loc)"
| "step s (FinalApproval sess now fault rid rep approvalType) =
     fst (handleFinalApproval sess now fault s rid rep approvalType)"

fun isProfileSetup :: "op \<Rightarrow> bool" where
  "isProfileSetup (ProfileSetup sess now fault nm rl) = True"
| "isProfileSetup _ = False"


definition run :: "store \<Rightarrow> op list \<Rightarrow> store" where
  "run s ops = foldl step s ops"


text \<open>The totals as the profile view shows them: \<open>userProfile?.totalReporterPoints ?? 0\<close>.\<close>

definition reporterPoints :: "store \<Rightarrow> string \<Rightarrow> int" where
  "reporterPoints s uid =
     (case profiles s uid of
        None \<Rightarrow> 0
      | Some p \<Rightarrow> (case totalReporterPoints p of None \<Rightarrow> 0 | Some n \<Rightarrow> n))"

definition pickerPoints :: "store \<Rightarrow> string \<Rightarrow> int" where
  "pickerPoints s uid =
     (case profiles s uid of
        None \<Rightarrow> 0
      | Some p \<Rightarrow> (case totalPickerPoints p of None \<Rightarrow> 0 | Some n \<Rightarrow> n))"

section \<open>Predicates of the statements\<close>

text \<open>Every profile shows non-negative totals.\<close>

definition pointsNonneg :: "store \<Rightarrow> bool" where
  "pointsNonneg s = (\<forall>uid. 0 \<le> reporterPoints s uid \<and> 0 \<le> pickerPoints s uid)"



section \<open>A scenario\<close>

text \<open>
  The scenario of the specification, at the point where the monitor decides: Alice
  reported (base reward 10), Bob claimed and submitted proof, Mona is the monitor, and
  Carol is a second picker.
\<close>

definition monaProfile :: profile where
  "monaProfile = \<lparr>name = ''Mona'', role = ''monitor'', totalReporterPoints = Some 0,
     totalPickerPoints = Some 0, dateJoined = 1, publicUserId = ''mona''\<rparr>"

definition aliceProfile :: profile where
  "aliceProfile = \<lparr>name = ''Alice'', role = ''reporter'', totalReporterPoints = Some 5,
     totalPickerPoints = Some 0, dateJoined = 1, publicUserId = ''alice''\<rparr>"

definition bobProfile :: profile where
  "bobProfile = \<lparr>name = ''Bob'', role = ''picker'', totalReporterPoints = Some 0,
     totalPickerPoints = Some 7, dateJoined = 1, publicUserId = ''bob''\<rparr>"

definition carolProfile :: profile where
  "carolProfile = \<lparr>name = ''Carol'', role = ''picker'', totalReporterPoints = Some 0,
     totalPickerPoints = Some 0, dateJoined = 1, publicUserId = ''carol''\<rparr>"

definition monitorSession :: session where
  "monitorSession = \<lparr>userId = Some ''mona'', userProfile = Some monaProfile,
     userName = ''Mona'', userRole = ''monitor''\<rparr>"


definition carolSession :: session where
  "carolSession = \<lparr>userId = Some ''carol'', userProfile = Some carolProfile,
     userName = ''Carol'', userRole = ''picker''\<rparr>"

definition signedOut :: session where
  "signedOut = \<lparr>userId = None, userProfile = None, userName = [], userRole = []\<rparr>"

definition pendingReport :: report where
  "pendingReport =
     \<lparr>reporterId = ''alice'', reporterName = ''Alice'',
      location = \<lparr>lat = ''30.0500'', lon = ''78.0500''\<rparr>,
      originalImageUrl = ''img'', aiClassification = ''Organic Compost'',
      priority = ''Medium'', baseReward = Some 10, status = ''Pending Review'',
      pickerId = Some ''bob'', pickerName = Some ''Bob'', reportedAt = 2,
      reporterRewardIssued = False, pickerRewardIssued = False,
      cleanupPhotoUrl = Some ''proof'',
      pickerLocation = Some \<lparr>lat = ''30.0501'', lon = ''78.0501''\<rparr>,
      proofSubmittedAt = Some 3, monitorId = None, monitorName = None,
      monitorMessage = None, completedAt = None\<rparr>"

definition pendingStore :: store where
  "pendingStore = \<lparr>reports = [''r1'' \<mapsto> pendingReport],
     profiles = [''alice'' \<mapsto> aliceProfile, ''bob'' \<mapsto> bobProfile]\<rparr>"

text \<open>The report after Mona has rejected it.\<close>

definition rejectedReport :: report where
  "rejectedReport = rejectedFields monitorSession pendingReport"

text \<open>Alice's profile has no reporter total, and Bob has no profile document.\<close>

definition sparseStore :: store where
  "sparseStore = \<lparr>reports = [''r1'' \<mapsto> pendingReport],
     profiles = [''alice'' \<mapsto> aliceProfile\<lparr>totalReporterPoints := None\<rparr>]\<rparr>"




section \<open>JavaScript numbers\<close>






text \<open>Above, the result is rounded, as JavaScript rounds it.\<close>

lemma bitLength_54: "bitLength 9007199254740993 = 54"
  by (simp add: bitLength.simps)

lemma jsMul_rounds: "jsMul 3002399751580331 3 = 9007199254740992"
  by (simp add: jsMul_def toDouble_def roundHalfEven_def bitLength_54 Let_def)

lemma bitLength_67: "bitLength 99999999999999999999 = 67"
  by (simp add: bitLength.simps)

lemma parseInt_rounds: "parseInt ''99999999999999999999'' = 100000000000000000000"
  by (simp add: parseInt_def digitsValue_def toDouble_def roundHalfEven_def bitLength_67 Let_def)






section \<open>The two branches of the monitor's transaction\<close>

lemma approveBody_stops:
  "approveBody sess now rid rep db = (Inl ReadAfterWrite, [])"
  by (simp add: approveBody_def txGet_def txUpdate_def Let_def)

lemma rejectBody_commit:
  "reports s rid = Some d \<Longrightarrow>
   runTransaction None s (rejectBody sess rid) =
     (Inr (s\<lparr>reports := (reports s)(rid \<mapsto> rejectedFields sess d)\<rparr>),
      [Alert ''Report Rejected'' ''Proof rejected. Report re-opened.'' ''error''])"
  by (simp add: runTransaction_def rejectBody_def txUpdate_def)

lemma rejectBody_abort:
  "runTransaction (Some msg) s (rejectBody sess rid) =
     (Inl (Aborted msg),
      [Alert ''Report Rejected'' ''Proof rejected. Report re-opened.'' ''error''])"
  by (simp add: runTransaction_def rejectBody_def)

lemma handleFinalApproval_reject:
  assumes "userRole sess = ''monitor''" and "userProfile sess = Some prof"
    and "approvalType \<noteq> ''approve''"
  shows "handleFinalApproval sess now fault s rid rep approvalType =
           (case runTransaction fault s (rejectBody sess rid) of
              (Inr s', al) \<Rightarrow> (s', al)
            | (Inl e, al) \<Rightarrow> (s, al @ [Alert ''Approval Failed'' (errMessage e) ''error'']))"
  using assms by (simp add: handleFinalApproval_def)

lemma handleFinalApproval_approve:
  assumes "userRole sess = ''monitor''" and "userProfile sess = Some prof"
  shows "handleFinalApproval sess now fault s rid rep ''approve'' =
           (s, [Alert ''Approval Failed'' (errMessage ReadAfterWrite) ''error''])"
  using assms by (simp add: handleFinalApproval_def runTransaction_def approveBody_stops)

text \<open>A transaction that the store aborts leaves every document as it was.\<close>

lemma handleFinalApproval_abort_unchanged:
  "fst (handleFinalApproval sess now (Some msg) s rid rep approvalType) = s"
  by (simp add: handleFinalApproval_def runTransaction_def approveBody_stops rejectBody_def)

text \<open>So does every transaction that ends in the alert \<open>Approval Failed\<close>.\<close>

lemma handleFinalApproval_failed_unchanged:
  assumes "Alert ''Approval Failed'' m ''error''
             \<in> set (snd (handleFinalApproval sess now fault s rid rep approvalType))"
  shows "fst (handleFinalApproval sess now fault s rid rep approvalType) = s"
  using assms
  by (auto simp: handleFinalApproval_def runTransaction_def approveBody_stops rejectBody_def
      split: if_splits sum.splits option.splits)

section \<open>Approval\<close>

text \<open>
  C1: for a report in status Pending Review, approve sets the report to Completed with
  both reward flags, adds the reporter reward to the reporter's total and the picker
  reward to the picker's total, each total read inside the transaction.

  The code does not get there. The body updates the report before it reads the two
  profiles, the store rejects a read that follows a write, and the transaction fails:
  for every monitor, report and store, approve leaves the store as it was and the
  monitor sees \<open>Approval Failed\<close>.
\<close>

theorem approve_never_settles:
  assumes "userRole sess = ''monitor''" and "userProfile sess \<noteq> None"
  shows "handleFinalApproval sess now fault s rid rep ''approve'' =
           (s, [Alert ''Approval Failed''
                  ''Firestore transactions require all reads to be executed before all writes.''
                  ''error''])"
proof -
  from assms(2) obtain prof where "userProfile sess = Some prof" by auto
  with assms(1) show ?thesis by (simp add: handleFinalApproval_approve)
qed

text \<open>The scenario: the report stays in Pending Review, the totals stay 5 and 7.\<close>

theorem approve_never_settles_witness:
  "reports pendingStore ''r1'' = Some pendingReport \<and>
   status pendingReport = ''Pending Review'' \<and>
   reporterRewardIssued pendingReport = False \<and>
   reporterPoints pendingStore ''alice'' = 5 \<and> pickerPoints pendingStore ''bob'' = 7 \<and>
   handleFinalApproval monitorSession 100 None pendingStore ''r1'' pendingReport ''approve'' =
     (pendingStore,
      [Alert ''Approval Failed''
         ''Firestore transactions require all reads to be executed before all writes.''
         ''error''])"
proof -
  have a: "userRole monitorSession = ''monitor''" "userProfile monitorSession \<noteq> None"
    by (simp_all add: monitorSession_def)
  have b: "reports pendingStore ''r1'' = Some pendingReport"
    "status pendingReport = ''Pending Review''" "reporterRewardIssued pendingReport = False"
    "reporterPoints pendingStore ''alice'' = 5" "pickerPoints pendingStore ''bob'' = 7"
    by (simp_all add: pendingStore_def pendingReport_def reporterPoints_def pickerPoints_def
        aliceProfile_def bobProfile_def)
  from approve_never_settles [OF a, where now = 100 and fault = None and s = pendingStore
      and rid = "''r1''" and rep = pendingReport] b
  show ?thesis by simp
qed

text \<open>
  C2: the settlement is all-or-nothing, and the transaction body obeys the store's
  contract that all reads come before any write.

  The first half holds (\<open>handleFinalApproval_abort_unchanged\<close>). The second does not:
  the first read of the approve body comes after the update of the report, so the store
  rejects it, for every session, report and store.
\<close>

theorem approve_body_reads_after_write:
  "txGet db (txUpdate (UpdateReport rid (completedFields sess now rr rp)) []) uid
     = Inl ReadAfterWrite \<and>
   approveBody sess now rid rep db = (Inl ReadAfterWrite, []) \<and>
   runTransaction fault s (approveBody sess now rid rep) = (Inl ReadAfterWrite, [])"
  by (simp add: approveBody_stops runTransaction_def txGet_def txUpdate_def)

section \<open>The transition table\<close>

lemma updateDoc_same_or_new:
  "reports s rid = Some d \<Longrightarrow> updateDoc fault s rid f = Inr s' \<Longrightarrow> reports s' rid = Some (f d)"
  by (auto simp: updateDoc_def split: option.splits)

lemma handleClaimReport_status:
  "reports s rid = Some d \<Longrightarrow>
   \<exists>d'. reports (fst (handleClaimReport sess fault s rid)) rid = Some d' \<and>
        (d' = d \<or> status d' = ''Claimed'')"
  by (auto simp: handleClaimReport_def dest: updateDoc_same_or_new split: sum.splits)

lemma handleSubmitProof_status:
  "reports s rid = Some d \<Longrightarrow>
   \<exists>d'. reports (fst (handleSubmitProof sess now fault s rid img loc)) rid = Some d' \<and>
        (d' = d \<or> status d' = ''Pending Review'')"
  by (auto simp: handleSubmitProof_def dest: updateDoc_same_or_new split: sum.splits)

lemma handleFinalApproval_status:
  "reports s rid = Some d \<Longrightarrow>
   \<exists>d'. reports (fst (handleFinalApproval sess now fault s rid rep approvalType)) rid = Some d' \<and>
        (d' = d \<or> status d' = ''Rejected'' \<or> status d' = ''Completed'')"
  by (auto simp: handleFinalApproval_def runTransaction_def approveBody_stops rejectBody_def
      txUpdate_def rejectedFields_def split: option.splits)

text \<open>
  The claim and the proof handler on a stored report, for a signed-in user with a loaded
  profile and a store that accepts the write: the report is written whatever its status,
  its picker and its proof photo, and the alert is not a failure.
\<close>

lemma handleClaimReport_any_status:
  assumes "\<not> falsyStr (userId sess)" and "userProfile sess \<noteq> None"
    and "reports s rid = Some d"
  shows "handleClaimReport sess None s rid =
           (s\<lparr>reports := (reports s)(rid \<mapsto> d\<lparr>status := ''Claimed'', pickerId := userId sess,
                 pickerName := Some (userName sess)\<rparr>)\<rparr>,
            [Alert ''Report Claimed!'' ''Proceed to cleanup.'' ''success''])"
  using assms by (auto simp: handleClaimReport_def updateDoc_def)

lemma handleSubmitProof_any_status:
  assumes "\<not> falsyStr (userId sess)" and "userProfile sess \<noteq> None"
    and "reports s rid = Some d"
  shows "handleSubmitProof sess now None s rid (Inr photo) loc =
           (s\<lparr>reports := (reports s)(rid \<mapsto> d\<lparr>status := ''Pending Review'',
                 cleanupPhotoUrl := Some photo, pickerLocation := Some loc,
                 proofSubmittedAt := Some now\<rparr>)\<rparr>,
            [Alert ''Proof Submitted!'' ''Pending monitor review.'' ''info''])"
  using assms by (auto simp: handleSubmitProof_def updateDoc_def)

text \<open>
  C3 (as amended): the preconditions of the transition table are those of the buttons
  \<open>ReportItem\<close> offers. Claim is offered exactly to a picker on a report in status
  Reported; submit proof exactly to a picker on a report in status Claimed that they
  claimed and that has no proof photo; approve and reject exactly to a monitor on a
  report in status Pending Review. The claim and the proof handler check only that a
  user is signed in and a profile is loaded: given that, a stored report and a store
  that accepts the write, claim sets the report to Claimed with the actor as picker
  and submit proof sets it to Pending Review, whatever the report's status and picker,
  and the alert is a success or an info alert. Without a signed-in user or a loaded
  profile they leave the store unchanged and raise an error alert; for a user who is
  not a monitor, or without a loaded profile, approve and reject leave the store
  unchanged and raise no alert. Every handler leaves a stored report as it was or sets
  its status to the handler's own target status.
\<close>

theorem transition_guards:
  "(ClaimJob \<in> set (ReportItem sess rep) \<longleftrightarrow>
      userRole sess = ''picker'' \<and> status rep = ''Reported'') \<and>
   (SubmitProof \<in> set (ReportItem sess rep) \<longleftrightarrow>
      userRole sess = ''picker'' \<and> status rep = ''Claimed'' \<and> pickerId rep = userId sess \<and>
      falsyStr (cleanupPhotoUrl rep)) \<and>
   (Approve \<in> set (ReportItem sess rep) \<longleftrightarrow>
      userRole sess = ''monitor'' \<and> status rep = ''Pending Review'') \<and>
   (Reject \<in> set (ReportItem sess rep) \<longleftrightarrow>
      userRole sess = ''monitor'' \<and> status rep = ''Pending Review'') \<and>
   (\<not> falsyStr (userId sess) \<and> userProfile sess \<noteq> None \<and> reports s rid = Some d \<longrightarrow>
      handleClaimReport sess None s rid =
        (s\<lparr>reports := (reports s)(rid \<mapsto> d\<lparr>status := ''Claimed'', pickerId := userId sess,
              pickerName := Some (userName sess)\<rparr>)\<rparr>,
         [Alert ''Report Claimed!'' ''Proceed to cleanup.'' ''success'']) \<and>
      handleSubmitProof sess now None s rid (Inr photo) loc =
        (s\<lparr>reports := (reports s)(rid \<mapsto> d\<lparr>status := ''Pending Review'',
              cleanupPhotoUrl := Some photo, pickerLocation := Some loc,
              proofSubmittedAt := Some now\<rparr>)\<rparr>,
         [Alert ''Proof Submitted!'' ''Pending monitor review.'' ''info''])) \<and>
   (reports s rid = Some d \<longrightarrow>
      (\<exists>d'. reports (fst (handleClaimReport sess fault s rid)) rid = Some d' \<and>
            (d' = d \<or> status d' = ''Claimed'')) \<and>
      (\<exists>d'. reports (fst (handleSubmitProof sess now fault s rid img loc)) rid = Some d' \<and>
            (d' = d \<or> status d' = ''Pending Review'')) \<and>
      (\<exists>d'. reports (fst (handleFinalApproval sess now fault s rid rep approvalType)) rid
              = Some d' \<and>
            (d' = d \<or> status d' = ''Rejected'' \<or> status d' = ''Completed''))) \<and>
   (falsyStr (userId sess) \<or> userProfile sess = None \<longrightarrow>
      handleClaimReport sess fault s rid =
        (s, [Alert ''Claim Failed'' ''Profile not ready.'' ''error'']) \<and>
      handleSubmitProof sess now fault s rid img loc =
        (s, [Alert ''Submission Failed'' ''Profile not ready.'' ''error''])) \<and>
   (userRole sess \<noteq> ''monitor'' \<or> userProfile sess = None \<longrightarrow>
      handleFinalApproval sess now fault s rid rep approvalType = (s, []))"
proof -
  have gates:
    "(ClaimJob \<in> set (ReportItem sess rep) \<longleftrightarrow>
        userRole sess = ''picker'' \<and> status rep = ''Reported'') \<and>
     (SubmitProof \<in> set (ReportItem sess rep) \<longleftrightarrow>
        userRole sess = ''picker'' \<and> status rep = ''Claimed'' \<and> pickerId rep = userId sess \<and>
        falsyStr (cleanupPhotoUrl rep)) \<and>
     (Approve \<in> set (ReportItem sess rep) \<longleftrightarrow>
        userRole sess = ''monitor'' \<and> status rep = ''Pending Review'') \<and>
     (Reject \<in> set (ReportItem sess rep) \<longleftrightarrow>
        userRole sess = ''monitor'' \<and> status rep = ''Pending Review'')"
    by (auto simp: ReportItem_def Let_def)
  have anystatus:
    "\<not> falsyStr (userId sess) \<and> userProfile sess \<noteq> None \<and> reports s rid = Some d \<longrightarrow>
      handleClaimReport sess None s rid =
        (s\<lparr>reports := (reports s)(rid \<mapsto> d\<lparr>status := ''Claimed'', pickerId := userId sess,
              pickerName := Some (userName sess)\<rparr>)\<rparr>,
         [Alert ''Report Claimed!'' ''Proceed to cleanup.'' ''success'']) \<and>
      handleSubmitProof sess now None s rid (Inr photo) loc =
        (s\<lparr>reports := (reports s)(rid \<mapsto> d\<lparr>status := ''Pending Review'',
              cleanupPhotoUrl := Some photo, pickerLocation := Some loc,
              proofSubmittedAt := Some now\<rparr>)\<rparr>,
         [Alert ''Proof Submitted!'' ''Pending monitor review.'' ''info''])"
    by (intro impI conjI handleClaimReport_any_status handleSubmitProof_any_status) simp_all
  have moves:
    "reports s rid = Some d \<longrightarrow>
      (\<exists>d'. reports (fst (handleClaimReport sess fault s rid)) rid = Some d' \<and>
            (d' = d \<or> status d' = ''Claimed'')) \<and>
      (\<exists>d'. reports (fst (handleSubmitProof sess now fault s rid img loc)) rid = Some d' \<and>
            (d' = d \<or> status d' = ''Pending Review'')) \<and>
      (\<exists>d'. reports (fst (handleFinalApproval sess now fault s rid rep approvalType)) rid
              = Some d' \<and>
            (d' = d \<or> status d' = ''Rejected'' \<or> status d' = ''Completed''))"
    by (intro impI conjI handleClaimReport_status handleSubmitProof_status
        handleFinalApproval_status)
  have session:
    "falsyStr (userId sess) \<or> userProfile sess = None \<longrightarrow>
       handleClaimReport sess fault s rid =
         (s, [Alert ''Claim Failed'' ''Profile not ready.'' ''error'']) \<and>
       handleSubmitProof sess now fault s rid img loc =
         (s, [Alert ''Submission Failed'' ''Profile not ready.'' ''error''])"
    by (auto simp: handleClaimReport_def handleSubmitProof_def)
  have monitor:
    "userRole sess \<noteq> ''monitor'' \<or> userProfile sess = None \<longrightarrow>
       handleFinalApproval sess now fault s rid rep approvalType = (s, [])"
    by (auto simp: handleFinalApproval_def)
  show ?thesis
    by (intro conjI gates [THEN conjunct1] gates [THEN conjunct2, THEN conjunct1]
        gates [THEN conjunct2, THEN conjunct2, THEN conjunct1]
        gates [THEN conjunct2, THEN conjunct2, THEN conjunct2] anystatus moves session monitor)
qed

text \<open>
  At concrete inputs. Carol, a picker, is offered nothing on the report in Pending
  Review that Bob claimed, and Mona is offered approve and reject. Carol's proof
  submission for that report is written all the same, with an info alert. A signed-out
  user's claim fails with an error alert; Carol's approve does nothing and raises no
  alert.
\<close>

theorem transition_guards_witness:
  "ReportItem carolSession pendingReport = [] \<and>
   ReportItem monitorSession pendingReport = [Approve, Reject] \<and>
   reports pendingStore ''r1'' = Some pendingReport \<and>
   handleSubmitProof carolSession 200 None pendingStore ''r1'' (Inr ''again'')
       \<lparr>lat = ''30.0502'', lon = ''78.0502''\<rparr> =
     (pendingStore\<lparr>reports := [''r1'' \<mapsto> pendingReport\<lparr>cleanupPhotoUrl := Some ''again'',
         pickerLocation := Some \<lparr>lat = ''30.0502'', lon = ''78.0502''\<rparr>,
         proofSubmittedAt := Some 200\<rparr>]\<rparr>,
      [Alert ''Proof Submitted!'' ''Pending monitor review.'' ''info'']) \<and>
   handleClaimReport signedOut None pendingStore ''r1'' =
     (pendingStore, [Alert ''Claim Failed'' ''Profile not ready.'' ''error'']) \<and>
   handleFinalApproval carolSession 100 None pendingStore ''r1'' pendingReport ''approve'' =
     (pendingStore, [])"
proof -
  have a: "falsyStr (userId signedOut) \<or> userProfile signedOut = None"
    by (simp add: signedOut_def)
  have b: "userRole carolSession \<noteq> ''monitor'' \<or> userProfile carolSession = None"
    by (simp add: carolSession_def)
  have c: "ReportItem carolSession pendingReport = []"
    "ReportItem monitorSession pendingReport = [Approve, Reject]"
    by (simp_all add: ReportItem_def carolSession_def monitorSession_def pendingReport_def)
  have d: "\<not> falsyStr (userId carolSession) \<and> userProfile carolSession \<noteq> None \<and>
           reports pendingStore ''r1'' = Some pendingReport"
    by (simp add: carolSession_def pendingStore_def)
  have e: "pendingReport\<lparr>status := ''Pending Review'', cleanupPhotoUrl := Some ''again'',
             pickerLocation := Some \<lparr>lat = ''30.0502'', lon = ''78.0502''\<rparr>,
             proofSubmittedAt := Some 200\<rparr> =
           pendingReport\<lparr>cleanupPhotoUrl := Some ''again'',
             pickerLocation := Some \<lparr>lat = ''30.0502'', lon = ''78.0502''\<rparr>,
             proofSubmittedAt := Some 200\<rparr>"
    by (simp add: pendingReport_def)
  have f: "(reports pendingStore)(''r1'' \<mapsto> x) = [''r1'' \<mapsto> x]" for x
    by (simp add: pendingStore_def)
  from a b c d
    transition_guards [where sess = signedOut and fault = None and s = pendingStore
      and rid = "''r1''"]
    transition_guards [where sess = carolSession and now = 100 and fault = None
      and s = pendingStore and rid = "''r1''" and rep = pendingReport
      and approvalType = "''approve''"]
    transition_guards [where sess = carolSession and now = 200 and s = pendingStore
      and rid = "''r1''" and d = pendingReport and photo = "''again''"
      and loc = "\<lparr>lat = ''30.0502'', lon = ''78.0502''\<rparr>"]
  show ?thesis by (simp add: e f)
qed

text \<open>
  The claim as stated fails: Carol's claim of the report that is in Pending Review,
  claimed by Bob, succeeds. The report moves from Pending Review to Claimed, which is
  no row of the table, and the alert is a success.
\<close>

theorem claim_ignores_status_counterexample:
  "reports pendingStore ''r1'' = Some pendingReport \<and>
   status pendingReport = ''Pending Review'' \<and>
   handleClaimReport carolSession None pendingStore ''r1'' =
     (pendingStore\<lparr>reports := [''r1'' \<mapsto> pendingReport\<lparr>status := ''Claimed'',
         pickerId := Some ''carol'', pickerName := Some ''Carol''\<rparr>]\<rparr>,
      [Alert ''Report Claimed!'' ''Proceed to cleanup.'' ''success''])"
  by (simp add: handleClaimReport_def updateDoc_def carolSession_def pendingStore_def
      pendingReport_def)

section \<open>The rewards\<close>



section \<open>Rejection\<close>

text \<open>
  C5: reject is a single-document update. For a monitor with a loaded profile and a
  report that the store holds (in Pending Review or in any other status: the handler does
  not read it), the store after reject differs from the store before in that one report
  only, which has status Rejected, no picker id, no picker name and the monitor's message;
  every profile is as before. If the store aborts the transaction, nothing changes.
\<close>

theorem reject_updates_report_only:
  assumes "userRole sess = ''monitor''" and "userProfile sess \<noteq> None"
    and "approvalType \<noteq> ''approve''" and "reports s rid = Some d"
  shows "fst (handleFinalApproval sess now None s rid rep approvalType) =
           s\<lparr>reports := (reports s)(rid \<mapsto> rejectedFields sess d)\<rparr>
         \<and> status (rejectedFields sess d) = ''Rejected''
         \<and> pickerId (rejectedFields sess d) = None
         \<and> pickerName (rejectedFields sess d) = None
         \<and> monitorMessage (rejectedFields sess d) = Some ''Proof rejected. Please resubmit.''
         \<and> profiles (fst (handleFinalApproval sess now None s rid rep approvalType)) = profiles s
         \<and> fst (handleFinalApproval sess now (Some msg) s rid rep approvalType) = s"
proof -
  from assms(2) obtain prof where prof: "userProfile sess = Some prof" by auto
  note hfa = handleFinalApproval_reject [OF assms(1) prof assms(3)]
  have ok: "fst (handleFinalApproval sess now None s rid rep approvalType) =
              s\<lparr>reports := (reports s)(rid \<mapsto> rejectedFields sess d)\<rparr>"
    by (simp add: hfa rejectBody_commit [OF assms(4)])
  have ab: "fst (handleFinalApproval sess now (Some msg) s rid rep approvalType) = s"
    by (simp add: hfa rejectBody_abort)
  show ?thesis
    by (simp add: ok ab) (simp add: rejectedFields_def)
qed

text \<open>Mona rejects the scenario's report.\<close>

theorem reject_updates_report_only_witness:
  "userRole monitorSession = ''monitor'' \<and> userProfile monitorSession \<noteq> None \<and>
   reports pendingStore ''r1'' = Some pendingReport \<and>
   status pendingReport = ''Pending Review'' \<and>
   fst (handleFinalApproval monitorSession 100 None pendingStore ''r1'' pendingReport ''reject'') =
     pendingStore\<lparr>reports := [''r1'' \<mapsto> rejectedReport]\<rparr> \<and>
   status rejectedReport = ''Rejected'' \<and> pickerId rejectedReport = None \<and>
   pickerName rejectedReport = None \<and>
   monitorMessage rejectedReport = Some ''Proof rejected. Please resubmit.''"
proof -
  have a: "userRole monitorSession = ''monitor''" "userProfile monitorSession \<noteq> None"
    by (simp_all add: monitorSession_def)
  have b: "''reject'' \<noteq> ''approve''" by simp
  have c: "reports pendingStore ''r1'' = Some pendingReport"
    by (simp add: pendingStore_def)
  have d: "status pendingReport = ''Pending Review''"
    by (simp add: pendingReport_def)
  from reject_updates_report_only [where now = 100 and rep = pendingReport, OF a b c] a c d
  show ?thesis by (simp add: rejectedReport_def pendingStore_def)
qed

text \<open>
  C9: reject leaves every field of the report other than status, pickerId, pickerName,
  monitorId, monitorName and monitorMessage as it was, the proof photo among them: putting
  the old values of these six fields back gives the old report. Whether the store commits
  or aborts, the other reports and all profiles are unchanged; when it commits, the picker
  assignment is cleared.
\<close>

theorem reject_frame:
  assumes "userRole sess = ''monitor''" and "userProfile sess \<noteq> None"
    and "approvalType \<noteq> ''approve''" and "reports s rid = Some d"
  shows "(case reports (fst (handleFinalApproval sess now fault s rid rep approvalType)) rid of
            None \<Rightarrow> False
          | Some d' \<Rightarrow>
              cleanupPhotoUrl d' = cleanupPhotoUrl d \<and>
              d'\<lparr>status := status d, pickerId := pickerId d, pickerName := pickerName d,
                 monitorId := monitorId d, monitorName := monitorName d,
                 monitorMessage := monitorMessage d\<rparr> = d \<and>
              (fault = None \<longrightarrow> pickerId d' = None \<and> pickerName d' = None)) \<and>
         (\<forall>other. other \<noteq> rid \<longrightarrow>
            reports (fst (handleFinalApproval sess now fault s rid rep approvalType)) other =
              reports s other) \<and>
         profiles (fst (handleFinalApproval sess now fault s rid rep approvalType)) = profiles s"
proof -
  from assms(2) obtain prof where prof: "userProfile sess = Some prof" by auto
  note hfa = handleFinalApproval_reject [OF assms(1) prof assms(3)]
  show ?thesis
  proof (cases fault)
    case None
    then show ?thesis
      using assms(4) by (simp add: hfa rejectBody_commit [OF assms(4)] rejectedFields_def)
  next
    case (Some msg)
    then show ?thesis
      using assms(4) by (simp add: hfa rejectBody_abort)
  qed
qed

text \<open>After Mona's reject the report still carries Bob's proof photo, and no picker.\<close>

theorem reject_frame_witness:
  "userRole monitorSession = ''monitor'' \<and> userProfile monitorSession \<noteq> None \<and>
   reports pendingStore ''r1'' = Some pendingReport \<and>
   cleanupPhotoUrl pendingReport = Some ''proof'' \<and>
   map_option cleanupPhotoUrl
     (reports (fst (handleFinalApproval monitorSession 100 None pendingStore ''r1''
        pendingReport ''reject'')) ''r1'') = Some (Some ''proof'') \<and>
   map_option pickerId
     (reports (fst (handleFinalApproval monitorSession 100 None pendingStore ''r1''
        pendingReport ''reject'')) ''r1'') = Some None"
proof -
  have a: "userRole monitorSession = ''monitor''" "userProfile monitorSession \<noteq> None"
    by (simp_all add: monitorSession_def)
  have b: "''reject'' \<noteq> ''approve''" by simp
  have c: "reports pendingStore ''r1'' = Some pendingReport"
    by (simp add: pendingStore_def)
  have d: "cleanupPhotoUrl pendingReport = Some ''proof''"
    by (simp add: pendingReport_def)
  from reject_frame [where now = 100 and fault = None and rep = pendingReport, OF a b c] a c d
  show ?thesis by (auto split: option.splits)
qed

text \<open>
  C7: a rejected report (status Rejected, no picker) can be claimed by another picker
  and becomes Claimed again.

  The handler would do it (\<open>claim_handler_on_rejected\<close>), but no picker can reach the
  handler: \<open>ReportItem\<close> offers the claim button on a report in status Reported only,
  and a rejected report has status Rejected.
\<close>

theorem rejected_report_not_claimable:
  assumes "status rep = ''Rejected''"
  shows "ClaimJob \<notin> set (ReportItem sess rep) \<and>
         (userRole sess = ''picker'' \<longrightarrow> ReportItem sess rep = [])"
  using assms by (simp add: ReportItem_def)

text \<open>Carol, a picker, looks at the report Mona rejected: there is no button.\<close>

theorem rejected_report_not_claimable_witness:
  "status rejectedReport = ''Rejected'' \<and> pickerId rejectedReport = None \<and>
   userRole carolSession = ''picker'' \<and> ReportItem carolSession rejectedReport = []"
proof -
  have a: "status rejectedReport = ''Rejected''" "pickerId rejectedReport = None"
    by (simp_all add: rejectedReport_def rejectedFields_def)
  have b: "userRole carolSession = ''picker''"
    by (simp add: carolSession_def)
  from rejected_report_not_claimable [OF a(1), of carolSession] a b
  show ?thesis by simp
qed

lemma claim_handler_on_rejected:
  assumes "userId sess = Some uid" and "uid \<noteq> []" and "userProfile sess = Some prof"
    and "reports s rid = Some d"
  shows "handleClaimReport sess None s rid =
           (s\<lparr>reports := (reports s)(rid \<mapsto> d\<lparr>status := ''Claimed'', pickerId := Some uid,
                 pickerName := Some (userName sess)\<rparr>)\<rparr>,
            [Alert ''Report Claimed!'' ''Proceed to cleanup.'' ''success''])"
  using assms by (simp add: handleClaimReport_def updateDoc_def)

section \<open>Point totals over sequences of operations\<close>

lemma updateDoc_profiles:
  "updateDoc fault s rid f = Inr s' \<Longrightarrow> profiles s' = profiles s"
  by (auto simp: updateDoc_def split: option.splits)

lemma handleClaimReport_profiles:
  "profiles (fst (handleClaimReport sess fault s rid)) = profiles s"
  by (auto simp: handleClaimReport_def dest: updateDoc_profiles split: sum.splits)

lemma handleSubmitProof_profiles:
  "profiles (fst (handleSubmitProof sess now fault s rid img loc)) = profiles s"
  by (auto simp: handleSubmitProof_def dest: updateDoc_profiles split: sum.splits)

lemma handleReportSubmission_profiles:
  "profiles (fst (handleReportSubmission sess now fault s img loc k r newId)) = profiles s"
  by (auto simp: handleReportSubmission_def addDoc_def Let_def
      split: sum.splits option.splits prod.splits)

lemma handleFinalApproval_profiles:
  "profiles (fst (handleFinalApproval sess now fault s rid rep approvalType)) = profiles s"
  by (auto simp: handleFinalApproval_def runTransaction_def approveBody_stops rejectBody_def
      txUpdate_def split: sum.splits option.splits)

lemma step_profiles: "\<not> isProfileSetup x \<Longrightarrow> profiles (step s x) = profiles s"
  by (cases x)
    (simp_all add: handleClaimReport_profiles handleSubmitProof_profiles
      handleReportSubmission_profiles handleFinalApproval_profiles)


text \<open>From any store: non-negative totals stay non-negative.\<close>

lemma handleProfileSetup_nonneg:
  "pointsNonneg s \<Longrightarrow> pointsNonneg (fst (handleProfileSetup sess now fault s nm rl))"
  by (auto simp: handleProfileSetup_def setDoc_def pointsNonneg_def reporterPoints_def
      pickerPoints_def split: option.splits)

lemma step_nonneg: "pointsNonneg s \<Longrightarrow> pointsNonneg (step s x)"
proof (cases "isProfileSetup x")
  case True
  then obtain sess now fault nm rl where "x = ProfileSetup sess now fault nm rl"
    by (cases x) auto
  then show "pointsNonneg s \<Longrightarrow> pointsNonneg (step s x)"
    by (simp add: handleProfileSetup_nonneg)
next
  case False
  then show "pointsNonneg s \<Longrightarrow> pointsNonneg (step s x)"
    by (simp add: pointsNonneg_def reporterPoints_def pickerPoints_def step_profiles)
qed

lemma run_nonneg: "pointsNonneg s \<Longrightarrow> pointsNonneg (run s xs)"
  unfolding run_def by (induction xs arbitrary: s) (simp_all add: step_nonneg)











section \<open>The advisory reward\<close>


text \<open>A call that fails gives the empty text: a thrown fetch, a status that is not ok,
  a body that is not JSON.\<close>

lemma callGeminiProxy_failed:
  "callGeminiProxy FetchFailed = JNull"
  "callGeminiProxy (Response False body) = JNull"
  "callGeminiProxy (Response True None) = JNull"
  by simp_all





section \<open>Settlement on a profile without points\<close>

lemma missing_points_read_as_zero:
  "orNum (snapField None fld) 0 = 0"
  "fld p = None \<Longrightarrow> orNum (snapField (Some p) fld) 0 = 0"
  "fld p = Some 0 \<Longrightarrow> orNum (snapField (Some p) fld) 0 = 0"
  by (simp_all add: snapField_def)

text \<open>
  C10: when a profile document is missing, or has no point field, or has the total 0,
  the settlement does not fail: it takes the current total as 0 and writes the reward as
  the new total.

  The expression that reads a total does give 0 in these cases, for the reporter and
  for the picker. But the settlement fails all the same: as for every approval, its
  first read comes after a write. And an update of a profile document that does not
  exist is rejected when the transaction is applied, whatever the order of the reads.
\<close>

theorem settlement_without_points_fails:
  assumes "userRole sess = ''monitor''" and "userProfile sess \<noteq> None"
  shows "(snapField (profiles s (reporterId rep)) totalReporterPoints = None \<or>
          snapField (profiles s (reporterId rep)) totalReporterPoints = Some 0 \<longrightarrow>
            orNum (snapField (profiles s (reporterId rep)) totalReporterPoints) 0 = 0) \<and>
         (snapField (profiles s (showId (pickerId rep))) totalPickerPoints = None \<or>
          snapField (profiles s (showId (pickerId rep))) totalPickerPoints = Some 0 \<longrightarrow>
            orNum (snapField (profiles s (showId (pickerId rep))) totalPickerPoints) 0 = 0) \<and>
         handleFinalApproval sess now fault s rid rep ''approve'' =
           (s, [Alert ''Approval Failed''
                  ''Firestore transactions require all reads to be executed before all writes.''
                  ''error'']) \<and>
         (profiles s uid = None \<longrightarrow> applyWrite s (UpdateProfile uid f) = Inl NotFound)"
proof -
  from assms(2) obtain prof where "userProfile sess = Some prof" by auto
  with assms(1) have
    "handleFinalApproval sess now fault s rid rep ''approve'' =
       (s, [Alert ''Approval Failed'' (errMessage ReadAfterWrite) ''error''])"
    by (rule handleFinalApproval_approve)
  then show ?thesis by auto
qed

text \<open>Alice's profile has no reporter total and Bob has no profile: approve fails.\<close>

theorem settlement_without_points_fails_witness:
  "profiles sparseStore ''bob'' = None \<and>
   map_option totalReporterPoints (profiles sparseStore ''alice'') = Some None \<and>
   orNum (snapField (profiles sparseStore ''alice'') totalReporterPoints) 0 = 0 \<and>
   orNum (snapField (profiles sparseStore ''bob'') totalPickerPoints) 0 = 0 \<and>
   applyWrite sparseStore
     (UpdateProfile ''bob'' (\<lambda>p. p\<lparr>totalPickerPoints := Some 30\<rparr>)) = Inl NotFound \<and>
   handleFinalApproval monitorSession 100 None sparseStore ''r1'' pendingReport ''approve'' =
     (sparseStore,
      [Alert ''Approval Failed''
         ''Firestore transactions require all reads to be executed before all writes.''
         ''error''])"
proof -
  have a: "userRole monitorSession = ''monitor''" "userProfile monitorSession \<noteq> None"
    by (simp_all add: monitorSession_def)
  have b: "snapField (profiles sparseStore (reporterId pendingReport)) totalReporterPoints = None"
    "snapField (profiles sparseStore (showId (pickerId pendingReport))) totalPickerPoints = None"
    by (simp_all add: snapField_def sparseStore_def pendingReport_def)
  have c: "profiles sparseStore ''bob'' = None"
    "map_option totalReporterPoints (profiles sparseStore ''alice'') = Some None"
    "reporterId pendingReport = ''alice''" "showId (pickerId pendingReport) = ''bob''"
    by (simp_all add: sparseStore_def pendingReport_def)
  from settlement_without_points_fails [OF a, where s = sparseStore and rep = pendingReport
      and now = 100 and fault = None and rid = "''r1''" and uid = "''bob''"
      and f = "\<lambda>p. p\<lparr>totalPickerPoints := Some 30\<rparr>"] b c
  show ?thesis by simp
qed

end
